theory Spec2Isabelle
  imports Complex_Main "HOL-Library.Monad_Syntax"
begin

section \<open>Values of the host language\<close>

text \<open>
  \<^verbatim>\<open>Scene.ts\<close> is glue between the player and the Marzipano rendering engine.
  A JavaScript \<^verbatim>\<open>number\<close> is a real here (the code only copies and negates numbers,
  both exact), an object reference is a natural number handed out by a counter, and a
  function value passed in by the caller (\<^verbatim>\<open>transition\<close>, \<^verbatim>\<open>done\<close>) is the
  number that identifies it. A call that raises (a property read on \<^verbatim>\<open>null\<close> or
  \<^verbatim>\<open>undefined\<close>, or an error thrown by the engine) returns \<open>None\<close>.
\<close>

type_synonym number = real
type_synonym ref = nat
type_synonym callback = nat

datatype jsval = JUndefined | JNull | JString string

fun truthy :: "jsval \<Rightarrow> bool" where
  "truthy (JString s) = (s \<noteq> [])"
| "truthy JUndefined = False"
| "truthy JNull = False"

fun to_string :: "jsval \<Rightarrow> string" where
  "to_string (JString s) = s"
| "to_string JUndefined = ''undefined''"
| "to_string JNull = ''null''"

datatype Eye = Left | Right

fun eye_name :: "Eye \<Rightarrow> string" where
  "eye_name Left = ''left''"
| "eye_name Right = ''right''"

text \<open>
  Modelled from the spec: \<^verbatim>\<open>Math/Vector4.ts\<close> is not among the sources. The spec
  describes the initial view parameters as a 4-component vector (yaw, pitch, roll,
  field-of-view) and the projection centre as an offset (x, y); \<^verbatim>\<open>Scene.ts\<close> reads
  \<^verbatim>\<open>.x\<close>, \<^verbatim>\<open>.yaw\<close> and \<^verbatim>\<open>.pitch\<close>. Components the two-argument constructor
  call leaves out are 0 here.
\<close>

datatype Vector4 = Vector4 (x: number) (y: number) (z: number) (w: number)

text \<open>
  The selectors \<open>x\<close>, \<open>y\<close>, \<open>z\<close> and \<open>w\<close> are constants from here on; no variable
  below bears one of these names.
\<close>

definition yaw :: "Vector4 \<Rightarrow> number" where
  "yaw v = x v"

definition pitch :: "Vector4 \<Rightarrow> number" where
  "pitch v = y v"

definition Vector4_xy :: "number \<Rightarrow> number \<Rightarrow> Vector4" where
  "Vector4_xy a b = Vector4 a b 0 0"

text \<open>
  Modelled from the spec: \<^verbatim>\<open>Utils/PairSet.ts\<close> is not among the sources. The spec
  describes it as two named slots, \<open>primary\<close> and \<open>secondary\<close>, with independent
  read/write access, and \<open>pair(op)\<close> applying \<open>op\<close> to each occupied slot, primary
  first, skipping unset slots.
\<close>

record 'a PairSet =
  primary :: "'a option"
  secondary :: "'a option"

definition PairSet_empty :: "'a PairSet" where
  "PairSet_empty = \<lparr>primary = None, secondary = None\<rparr>"

definition PairSet_of :: "'a \<Rightarrow> 'a \<Rightarrow> 'a PairSet" where
  "PairSet_of a b = \<lparr>primary = Some a, secondary = Some b\<rparr>"

definition pair_slots :: "'a PairSet \<Rightarrow> 'a list" where
  "pair_slots ps =
     (case primary ps of None \<Rightarrow> [] | Some a \<Rightarrow> [a]) @
     (case secondary ps of None \<Rightarrow> [] | Some b \<Rightarrow> [b])"

section \<open>The rendering engine's objects\<close>

text \<open>
  Marzipano is an external library. Each of its objects is a record of what the scene
  has handed to it: the constructor's arguments and the last argument of each setter
  (\<open>None\<close> while the scene has not called the setter). Where the engine throws on what
  the scene hands it (a level list it cannot use, a layer that is already on the stage or
  is not on it), the call raises here as well.
\<close>

text \<open>
  Modelled from the spec: \<^verbatim>\<open>Entities/Level.ts\<close> is not among the sources. The spec
  calls the levels tiling-resolution descriptors that are forwarded to the geometry
  builder; the builder reads of a level its tile size, its size and whether it is a
  fallback only.
\<close>

record Level =
  tileSize :: nat
  levelSize :: nat
  fallbackOnly :: bool

record LevelData =
  json_tileSize :: nat
  json_levelSize :: nat
  json_fallbackOnly :: bool

typedecl LinkHotspotData
typedecl InfoHotspotData
typedecl DomNode
typedecl Position

text \<open>
  The hotspot descriptors, the DOM nodes and the positions pass through the scene
  untouched. The mode is tested with \<^verbatim>\<open>instanceof PanoramaMode\<close>; any other mode is
  used as a \<^verbatim>\<open>StereoscopicMode\<close>.
\<close>

datatype Mode = PanoramaMode | StereoscopicMode (dominantEye: Eye)

record Player =
  mode :: Mode

record Hotspot =
  node :: DomNode
  position :: Position

text \<open>
  A limiter made by \<^verbatim>\<open>RectilinearView.limit.traditional(maxResolution, maxVFov)\<close> is
  the pair of its arguments.
\<close>

datatype Limiter = Traditional nat number

definition PANORAMA_LIMITER :: Limiter where
  "PANORAMA_LIMITER = Traditional 4096 (120 * pi / 180)"

definition STEREOSCOPIC_LIMITER :: Limiter where
  "STEREOSCOPIC_LIMITER = Traditional 4096 (90 * pi / 180)"

record Rect =
  relativeWidth :: "number option"
  relativeX :: "number option"

record Geometry =
  geometry_ref :: ref
  geometry_levels :: "Level list"

record View =
  view_ref :: ref
  parameters :: Vector4
  limiter :: Limiter
  projectionCenterX :: "number option"

record Source =
  source_ref :: ref
  tileUrl :: string
  cubeMapPreviewUrl :: string

record TextureStore =
  store_ref :: ref
  store_geometry :: "ref option"
  store_source :: ref

record Layer =
  layer_ref :: ref
  layer_source :: ref
  layer_geometry :: "ref option"
  layer_view :: ref
  layer_store :: ref
  rect :: Rect
  pinned :: bool

record HotspotContainer =
  container_ref :: ref
  container_view :: ref
  container_rect :: Rect
  hotspots :: "(DomNode \<times> Position) list"
  visible :: "bool option"

section \<open>The scene and its surroundings\<close>

text \<open>
  The completion closures the scene hands to \<^verbatim>\<open>Marzipano.util.tween\<close>: the one of
  \<^verbatim>\<open>onAttach\<close> and the one of \<^verbatim>\<open>onDetatch\<close>, each holding the caller's
  \<^verbatim>\<open>done\<close> (\<open>None\<close> when \<^verbatim>\<open>typeof done\<close> is not \<^verbatim>\<open>'function'\<close>). An
  interpolation is what \<^verbatim>\<open>tween\<close> was called with; the cancel function the engine
  returns for it closes over the same completion closure.
\<close>

datatype Completion = AttachDone "callback option" | DetachDone "callback option"

record Tween =
  tween_ref :: ref
  tween_duration :: "number option"
  tween_update :: callback
  tween_done :: Completion

datatype Timer = ResetViewParameters

record ISceneData =
  json_id :: string
  json_name :: string
  json_levels :: "LevelData list"
  json_faceSize :: number
  json_initialViewParameters :: Vector4
  json_linkHotspots :: "LinkHotspotData list"
  json_infoHotspots :: "InfoHotspotData list"

text \<open>
  The fields of the class, \<^verbatim>\<open>_id\<close> as \<open>f_id\<close> and so on. The resources that
  \<^verbatim>\<open>onDestroy\<close> sets to \<^verbatim>\<open>null\<close> and that do not exist before the constructor or
  \<^verbatim>\<open>onCreate\<close> has run are options. \<open>f_cancelTweening\<close> holds the interpolation
  whose cancel function is stored.
\<close>

record Scene =
  f_id :: string
  f_name :: string
  f_levels :: "Level list"
  f_faceSize :: number
  f_initialViewParameters :: Vector4
  f_linkHotspots :: "Hotspot list"
  f_infoHotspots :: "Hotspot list"
  f_player :: Player
  f_geometry :: "Geometry option"
  f_projectionCenter :: "Vector4 option"
  f_views :: "View PairSet option"
  f_hotspotContainer :: "HotspotContainer option"
  f_sources :: "Source PairSet option"
  f_textureStores :: "TextureStore PairSet option"
  f_layers :: "Layer PairSet option"
  f_cancelTweening :: "Tween option"

text \<open>
  The calls that leave the scene, in the order they are made. \<^verbatim>\<open>transition(val, this)\<close>
  is handed the scene, so its event holds the scene as it is at the call.
  \<open>CompletionCalled\<close> marks the engine calling an interpolation's completion closure.
\<close>

datatype Event =
    CallDone callback
  | CallTransition callback number Scene
  | AddLayer ref
  | RemoveLayer ref
  | TweenStarted ref
  | TweenCancelled ref
  | CompletionCalled ref
  | DestroyStore ref
  | DestroyView ref
  | DestroyLayer ref
  | DestroyContainer ref

text \<open>
  What lives outside the scene: the reference counter, the layers mounted on the stage
  (\<^verbatim>\<open>player.viewer.stage()\<close>), the interpolations in flight, the pending
  \<^verbatim>\<open>setTimeout\<close> callbacks, and the trace of calls.
\<close>

record World =
  next_ref :: ref
  stage_layers :: "ref set"
  tweens :: "Tween list"
  timers :: "Timer list"
  trace :: "Event list"

definition alloc :: "World \<Rightarrow> ref \<times> World" where
  "alloc wd = (next_ref wd, wd\<lparr>next_ref := Suc (next_ref wd)\<rparr>)"

definition emit :: "Event \<Rightarrow> World \<Rightarrow> World" where
  "emit e wd = wd\<lparr>trace := trace wd @ [e]\<rparr>"

section \<open>Deserialisation\<close>

text \<open>
  The constructor, as \<^verbatim>\<open>Scene.apply(scene)\<close> runs it on the object that
  \<^verbatim>\<open>Object.assign\<close> has filled: \<^verbatim>\<open>_player || this._player\<close> keeps the assigned
  player when no argument is given, and the three pair sets start empty.
\<close>

definition Scene_constructor :: "Player option \<Rightarrow> Scene \<Rightarrow> Scene" where
  "Scene_constructor p this =
     this\<lparr>f_player := (case p of Some q \<Rightarrow> q | None \<Rightarrow> f_player this),
          f_sources := Some PairSet_empty,
          f_textureStores := Some PairSet_empty,
          f_layers := Some PairSet_empty\<rparr>"

datatype SceneJSON = Data ISceneData | Text string

text \<open>
  \<^verbatim>\<open>Level.fromJSON\<close>, \<^verbatim>\<open>LinkHotspot.fromJSON\<close>, \<^verbatim>\<open>InfoHotspot.fromJSON\<close> and the
  runtime's \<^verbatim>\<open>JSON.parse\<close> are parameters. On a string the reviver calls
  \<^verbatim>\<open>Scene.fromJSON\<close> on the parsed root (the empty key); a parse error raises.
\<close>

definition fromJSON_object ::
  "(LevelData \<Rightarrow> Level) \<Rightarrow> (Player \<Rightarrow> LinkHotspotData \<Rightarrow> Hotspot) \<Rightarrow>
   (Player \<Rightarrow> InfoHotspotData \<Rightarrow> Hotspot) \<Rightarrow> Player \<Rightarrow> ISceneData \<Rightarrow> Scene" where
  "fromJSON_object level_fromJSON link_fromJSON info_fromJSON player json =
     Scene_constructor None
       \<lparr>f_id = json_id json,
        f_name = json_name json,
        f_levels = map level_fromJSON (json_levels json),
        f_faceSize = json_faceSize json,
        f_initialViewParameters =
          Vector4 (yaw (json_initialViewParameters json))
                  (pitch (json_initialViewParameters json)) 0 90,
        f_linkHotspots = map (link_fromJSON player) (json_linkHotspots json),
        f_infoHotspots = map (info_fromJSON player) (json_infoHotspots json),
        f_player = player,
        f_geometry = None,
        f_projectionCenter = None,
        f_views = None,
        f_hotspotContainer = None,
        f_sources = None,
        f_textureStores = None,
        f_layers = None,
        f_cancelTweening = None\<rparr>"

definition fromJSON ::
  "(LevelData \<Rightarrow> Level) \<Rightarrow> (Player \<Rightarrow> LinkHotspotData \<Rightarrow> Hotspot) \<Rightarrow>
   (Player \<Rightarrow> InfoHotspotData \<Rightarrow> Hotspot) \<Rightarrow> (string \<Rightarrow> ISceneData option) \<Rightarrow>
   Player \<Rightarrow> SceneJSON \<Rightarrow> Scene option" where
  "fromJSON level_fromJSON link_fromJSON info_fromJSON parse player json =
     (case json of
        Text t \<Rightarrow>
          (case parse t of
             None \<Rightarrow> None
           | Some d \<Rightarrow> Some (fromJSON_object level_fromJSON link_fromJSON info_fromJSON player d))
      | Data d \<Rightarrow> Some (fromJSON_object level_fromJSON link_fromJSON info_fromJSON player d))"

section \<open>Calls on the engine's objects\<close>

definition setLimiter :: "Limiter \<Rightarrow> View \<Rightarrow> View" where
  "setLimiter l v = v\<lparr>limiter := l\<rparr>"

definition setProjectionCenterX :: "number \<Rightarrow> View \<Rightarrow> View" where
  "setProjectionCenterX a v = v\<lparr>projectionCenterX := Some a\<rparr>"


text \<open>The scene only ever passes an effects object with the one key \<^verbatim>\<open>rect\<close>.\<close>

definition setEffects :: "Rect \<Rightarrow> Layer \<Rightarrow> Layer" where
  "setEffects r l = l\<lparr>rect := r\<rparr>"

definition setRect :: "Rect \<Rightarrow> HotspotContainer \<Rightarrow> HotspotContainer" where
  "setRect r c = c\<lparr>container_rect := r\<rparr>"

definition show_container :: "HotspotContainer \<Rightarrow> HotspotContainer" where
  "show_container c = c\<lparr>visible := Some True\<rparr>"

definition hide_container :: "HotspotContainer \<Rightarrow> HotspotContainer" where
  "hide_container c = c\<lparr>visible := Some False\<rparr>"

definition createHotspot :: "DomNode \<Rightarrow> Position \<Rightarrow> HotspotContainer \<Rightarrow> HotspotContainer" where
  "createHotspot n p c = c\<lparr>hotspots := hotspots c @ [(n, p)]\<rparr>"

text \<open>
  \<^verbatim>\<open>this._views.primary.m(...)\<close> and its siblings: the call raises when the field is
  \<^verbatim>\<open>null\<close> or \<^verbatim>\<open>undefined\<close> or the slot is unset.
\<close>

definition primary_view :: "(View \<Rightarrow> View) \<Rightarrow> Scene \<Rightarrow> Scene option" where
  "primary_view m this = do {
     vs \<leftarrow> f_views this;
     v \<leftarrow> primary vs;
     Some (this\<lparr>f_views := Some (vs\<lparr>primary := Some (m v)\<rparr>)\<rparr>)
   }"

definition secondary_view :: "(View \<Rightarrow> View) \<Rightarrow> Scene \<Rightarrow> Scene option" where
  "secondary_view m this = do {
     vs \<leftarrow> f_views this;
     v \<leftarrow> secondary vs;
     Some (this\<lparr>f_views := Some (vs\<lparr>secondary := Some (m v)\<rparr>)\<rparr>)
   }"

definition primary_layer :: "(Layer \<Rightarrow> Layer) \<Rightarrow> Scene \<Rightarrow> Scene option" where
  "primary_layer m this = do {
     ls \<leftarrow> f_layers this;
     l \<leftarrow> primary ls;
     Some (this\<lparr>f_layers := Some (ls\<lparr>primary := Some (m l)\<rparr>)\<rparr>)
   }"

definition hotspotContainer :: "(HotspotContainer \<Rightarrow> HotspotContainer) \<Rightarrow> Scene \<Rightarrow> Scene option" where
  "hotspotContainer m this = do {
     c \<leftarrow> f_hotspotContainer this;
     Some (this\<lparr>f_hotspotContainer := Some (m c)\<rparr>)
   }"

text \<open>
  The stage is the set of mounted layers. The engine's \<^verbatim>\<open>Stage.addLayer\<close> throws
  \<^verbatim>\<open>Layer already in stage\<close> for a layer that is mounted, and
  \<^verbatim>\<open>Stage.removeLayer\<close> throws \<^verbatim>\<open>No such layer in stage\<close> for one that is not;
  \<^verbatim>\<open>hasLayer\<close> only answers.
\<close>

definition addLayer :: "Layer \<Rightarrow> World \<Rightarrow> World option" where
  "addLayer l wd =
     (if layer_ref l \<in> stage_layers wd then None
      else Some (emit (AddLayer (layer_ref l))
                  (wd\<lparr>stage_layers := insert (layer_ref l) (stage_layers wd)\<rparr>)))"

definition removeLayer :: "Layer \<Rightarrow> World \<Rightarrow> World option" where
  "removeLayer l wd =
     (if layer_ref l \<in> stage_layers wd
      then Some (emit (RemoveLayer (layer_ref l))
                  (wd\<lparr>stage_layers := stage_layers wd - {layer_ref l}\<rparr>))
      else None)"

definition hasLayer :: "Layer option \<Rightarrow> World \<Rightarrow> bool" where
  "hasLayer l wd = (case l of None \<Rightarrow> False | Some a \<Rightarrow> layer_ref a \<in> stage_layers wd)"

text \<open>\<^verbatim>\<open>if (typeof done === 'function') done();\<close>\<close>

definition call_done :: "callback option \<Rightarrow> World \<Rightarrow> World" where
  "call_done dn wd = (case dn of None \<Rightarrow> wd | Some cb \<Rightarrow> emit (CallDone cb) wd)"

text \<open>Modelled from the spec: \<open>pair(op)\<close> of \<^verbatim>\<open>Utils/PairSet.ts\<close>, \<open>op\<close> acting on the world.\<close>

definition pair :: "('a \<Rightarrow> World \<Rightarrow> World) \<Rightarrow> 'a PairSet \<Rightarrow> World \<Rightarrow> World" where
  "pair op ps wd = fold op (pair_slots ps) wd"

section \<open>Statements\<close>

text \<open>
  A method that changes the scene or the stage step by step and raises half-way leaves
  the changes it has made. Such a method is a list of statements, run in order on the
  pair of the scene and the world; each statement either returns, or raises and stops
  the list, and in both cases yields the state it has reached. A single statement built
  by \<open>atomic\<close> raises before it has changed anything.
\<close>

datatype outcome = Returns | Raises

type_synonym state = "Scene \<times> World"
type_synonym stmt = "state \<Rightarrow> outcome \<times> state"

definition atomic :: "(state \<Rightarrow> state option) \<Rightarrow> stmt" where
  "atomic f st = (case f st of None \<Rightarrow> (Raises, st) | Some st' \<Rightarrow> (Returns, st'))"

fun block :: "stmt list \<Rightarrow> stmt" where
  "block [] st = (Returns, st)"
| "block (c # cs) st =
     (case c st of (Returns, st') \<Rightarrow> block cs st' | (Raises, st') \<Rightarrow> (Raises, st'))"

definition on_scene :: "(Scene \<Rightarrow> Scene option) \<Rightarrow> stmt" where
  "on_scene f = atomic (\<lambda>(this, wd). map_option (\<lambda>s. (s, wd)) (f this))"

definition on_world :: "(World \<Rightarrow> World) \<Rightarrow> stmt" where
  "on_world f = atomic (\<lambda>(this, wd). Some (this, f wd))"

text \<open>What the caller of a method gets: the state if the method returned.\<close>

definition returned :: "outcome \<times> state \<Rightarrow> state option" where
  "returned r = (case r of (Returns, st) \<Rightarrow> Some st | (Raises, st) \<Rightarrow> None)"

text \<open>
  \<^verbatim>\<open>stage.addLayer(this._layers.primary)\<close> and its siblings. A read of
  \<^verbatim>\<open>this._layers\<close> when it is \<^verbatim>\<open>null\<close> raises, and so does the engine when it is
  handed the \<^verbatim>\<open>undefined\<close> of an unset slot.
\<close>

definition stage_addLayer :: "(Layer PairSet \<Rightarrow> Layer option) \<Rightarrow> stmt" where
  "stage_addLayer slot = atomic (\<lambda>(this, wd). do {
     ls \<leftarrow> f_layers this;
     l \<leftarrow> slot ls;
     w1 \<leftarrow> addLayer l wd;
     Some (this, w1)
   })"

definition stage_removeLayer :: "(Layer PairSet \<Rightarrow> Layer option) \<Rightarrow> stmt" where
  "stage_removeLayer slot = atomic (\<lambda>(this, wd). do {
     ls \<leftarrow> f_layers this;
     l \<leftarrow> slot ls;
     w1 \<leftarrow> removeLayer l wd;
     Some (this, w1)
   })"

definition clear_cancelTweening :: stmt where
  "clear_cancelTweening = on_scene (\<lambda>this. Some (this\<lparr>f_cancelTweening := None\<rparr>))"

section \<open>Getters and setters\<close>

definition get_projectionCenter :: "Scene \<Rightarrow> Vector4 option" where
  "get_projectionCenter this = f_projectionCenter this"

definition set_projectionCenter :: "Vector4 \<Rightarrow> Scene \<Rightarrow> Scene option" where
  "set_projectionCenter center this = do {
     s \<leftarrow> primary_view (setProjectionCenterX (x center)) this;
     secondary_view (setProjectionCenterX (- x center)) s
   }"

text \<open>The \<^verbatim>\<open>eye\<close> setter; \<^verbatim>\<open>_update()\<close> only lays the container out again.\<close>

definition set_eye :: "Eye \<Rightarrow> Scene \<Rightarrow> Scene option" where
  "set_eye eye this =
     (if eye = Left then do {
        ls \<leftarrow> f_layers this;
        l \<leftarrow> primary ls;
        hotspotContainer (setRect (rect l)) this
      } else do {
        ls \<leftarrow> f_layers this;
        l \<leftarrow> secondary ls;
        hotspotContainer (setRect (rect l)) this
      })"

section \<open>The life cycle\<close>

text \<open>
  \<^verbatim>\<open>createLayer\<close>. \<^verbatim>\<open>Utils/FS.ts\<close> is not among the sources, so the value of
  \<^verbatim>\<open>FS.path(this._player.stagePath)\<close> is the parameter \<open>path0\<close>. \<open>basePath\<close> is the
  second statement, \<^verbatim>\<open>path = path ? 'assets/tiles' : path + 'tiles'\<close>.
\<close>

definition basePath :: "jsval \<Rightarrow> string" where
  "basePath path0 = (if truthy path0 then ''assets/tiles'' else to_string path0 @ ''tiles'')"

definition createLayer :: "jsval \<Rightarrow> View \<Rightarrow> Eye \<Rightarrow> Rect \<Rightarrow> Scene \<Rightarrow> World \<Rightarrow> (Scene \<times> World) option" where
  "createLayer path0 view eye r this wd =
     (let path = basePath path0;
          (sr, w1) = alloc wd;
          source = \<lparr>source_ref = sr,
                    tileUrl = path @ ''/'' @ f_id this @ ''/'' @ eye_name eye @ ''/{z}/{f}/{y}/{x}.jpg'',
                    cubeMapPreviewUrl = path @ ''/'' @ f_id this @ ''/'' @ eye_name eye @ ''/preview.jpg''\<rparr>;
          (tr, w2) = alloc w1;
          store = \<lparr>store_ref = tr, store_geometry = map_option geometry_ref (f_geometry this),
                   store_source = sr\<rparr>;
          (lr, w3) = alloc w2;
          layer = \<lparr>layer_ref = lr, layer_source = sr,
                   layer_geometry = map_option geometry_ref (f_geometry this),
                   layer_view = view_ref view, layer_store = tr, rect = r, pinned = True\<rparr>
      in if eye = Left then do {
           so \<leftarrow> f_sources this;
           ts \<leftarrow> f_textureStores this;
           ls \<leftarrow> f_layers this;
           Some (this\<lparr>f_sources := Some (so\<lparr>primary := Some source\<rparr>),
                      f_textureStores := Some (ts\<lparr>primary := Some store\<rparr>),
                      f_layers := Some (ls\<lparr>primary := Some layer\<rparr>)\<rparr>, w3)
         } else do {
           so \<leftarrow> f_sources this;
           ts \<leftarrow> f_textureStores this;
           ls \<leftarrow> f_layers this;
           Some (this\<lparr>f_sources := Some (so\<lparr>secondary := Some source\<rparr>),
                      f_textureStores := Some (ts\<lparr>secondary := Some store\<rparr>),
                      f_layers := Some (ls\<lparr>secondary := Some layer\<rparr>)\<rparr>, w3)
         })"

definition new_view :: "Vector4 \<Rightarrow> Limiter \<Rightarrow> World \<Rightarrow> View \<times> World" where
  "new_view params l wd =
     (let (r, w1) = alloc wd
      in (\<lparr>view_ref = r, parameters = params, limiter = l, projectionCenterX = None\<rparr>, w1))"

text \<open>
  \<^verbatim>\<open>new Marzipano.CubeGeometry(levels)\<close>. The engine builds a cube level from each
  entry and throws when a level's size is not a multiple of its tile size; it throws
  \<^verbatim>\<open>No selectable levels in list\<close> when every level is a fallback or the list is
  empty; and, with the levels sorted by size, it throws when a level's size or its number
  of tiles is not a multiple of that of the level before it. JavaScript's remainder by 0
  is \<^verbatim>\<open>NaN\<close>, which is not 0, so a zero tile size or a zero size of the level before
  throws too.
\<close>

definition level_accepted :: "Level \<Rightarrow> bool" where
  "level_accepted l = (tileSize l \<noteq> 0 \<and> levelSize l mod tileSize l = 0)"

definition parent_accepted :: "Level \<Rightarrow> Level \<Rightarrow> bool" where
  "parent_accepted p l =
     (levelSize p \<noteq> 0 \<and> levelSize l mod levelSize p = 0 \<and>
      (levelSize l div tileSize l) mod (levelSize p div tileSize p) = 0)"

fun parents_accepted :: "Level list \<Rightarrow> bool" where
  "parents_accepted (p # l # ls) = (parent_accepted p l \<and> parents_accepted (l # ls))"
| "parents_accepted ls = True"

definition levels_accepted :: "Level list \<Rightarrow> bool" where
  "levels_accepted ls =
     (list_all level_accepted ls \<and> filter (\<lambda>l. \<not> fallbackOnly l) ls \<noteq> [] \<and>
      parents_accepted (sort_key levelSize ls))"

definition CubeGeometry :: "Level list \<Rightarrow> World \<Rightarrow> (Geometry \<times> World) option" where
  "CubeGeometry ls wd =
     (if levels_accepted ls
      then (let (g, w1) = alloc wd in Some (\<lparr>geometry_ref = g, geometry_levels = ls\<rparr>, w1))
      else None)"

definition onCreate :: "jsval \<Rightarrow> Scene \<Rightarrow> World \<Rightarrow> (bool \<times> Scene \<times> World) option" where
  "onCreate path0 this wd = do {
     (g, w1) \<leftarrow> CubeGeometry (f_levels this) wd;
     let s1 = this\<lparr>f_geometry := Some g\<rparr>;
     let s2 = s1\<lparr>f_projectionCenter := Some (Vector4_xy 0 0)\<rparr>;
     let (v1, w2) = new_view (f_initialViewParameters s2) PANORAMA_LIMITER w1;
     let (v2, w3) = new_view (f_initialViewParameters s2) STEREOSCOPIC_LIMITER w2;
     let s3 = s2\<lparr>f_views := Some (PairSet_of v1 v2)\<rparr>;
     (s4, w4) \<leftarrow> createLayer path0 v1 Left \<lparr>relativeWidth = Some (1 / 2), relativeX = Some 0\<rparr> s3 w3;
     (s5, w5) \<leftarrow> createLayer path0 v2 Right \<lparr>relativeWidth = Some (1 / 2), relativeX = Some (1 / 2)\<rparr> s4 w4;
     ls \<leftarrow> f_layers s5;
     lp \<leftarrow> primary ls;
     let (c, w6) = alloc w5;
     let c0 = \<lparr>container_ref = c, container_view = view_ref v1, container_rect = rect lp,
               hotspots = [], visible = None\<rparr>;
     let c1 = fold (\<lambda>h. createHotspot (node h) (position h)) (f_linkHotspots s5) c0;
     let c2 = fold (\<lambda>h. createHotspot (node h) (position h)) (f_infoHotspots s5) c1;
     Some (True, s5\<lparr>f_hotspotContainer := Some c2\<rparr>, w6)
   }"


text \<open>
  The first part of \<^verbatim>\<open>onAttach\<close>, lines 114 to 128: the layer sizes and limiter for
  the mode, and the mounting of the layers.
\<close>

definition mount :: stmt where
  "mount st =
     (case mode (f_player (fst st)) of
        PanoramaMode \<Rightarrow> block
          [on_scene (primary_view (setLimiter PANORAMA_LIMITER)),
           on_scene (primary_view (setProjectionCenterX 0)),
           on_scene (secondary_view (setProjectionCenterX 0)),
           on_scene (primary_layer (setEffects \<lparr>relativeWidth = Some 1, relativeX = None\<rparr>)),
           on_scene (set_eye Left),
           stage_addLayer primary] st
      | StereoscopicMode eye \<Rightarrow> block
          [on_scene (primary_view (setLimiter STEREOSCOPIC_LIMITER)),
           on_scene (\<lambda>this. do {
             c \<leftarrow> get_projectionCenter this;
             primary_view (setProjectionCenterX (x c)) this
           }),
           on_scene (primary_layer (setEffects \<lparr>relativeWidth = Some (1 / 2), relativeX = None\<rparr>)),
           on_scene (set_eye eye),
           stage_addLayer secondary,
           stage_addLayer primary] st)"

text \<open>
  The statements \<^verbatim>\<open>onDetatch\<close> runs at once without a transition, and in its
  completion closure with one (lines 173 to 178 and 193 to 198).
\<close>

definition unmount :: "callback option \<Rightarrow> stmt" where
  "unmount dn = block
     [on_scene (hotspotContainer hide_container),
      stage_removeLayer primary,
      atomic (\<lambda>(this, wd). do {
        ls \<leftarrow> f_layers this;
        if hasLayer (secondary ls) wd
        then do { l \<leftarrow> secondary ls; w1 \<leftarrow> removeLayer l wd; Some (this, w1) }
        else Some (this, wd)
      }),
      on_world (call_done dn)]"

text \<open>
  The completion closures: lines 152 to 156 of \<^verbatim>\<open>onAttach\<close> and lines 191 to 199 of
  \<^verbatim>\<open>onDetatch\<close>.
\<close>

fun completion :: "Completion \<Rightarrow> stmt" where
  "completion (AttachDone dn) = block
     [clear_cancelTweening,
      on_scene (hotspotContainer show_container),
      on_world (call_done dn)]"
| "completion (DetachDone dn) = block
     [clear_cancelTweening,
      unmount dn]"

text \<open>
  \<^verbatim>\<open>Marzipano.util.tween(duration, update, done)\<close> is the engine's. It calls
  \<^verbatim>\<open>update(0)\<close> at once, schedules its frames and returns its cancel function. A frame
  of an interpolation in flight calls \<^verbatim>\<open>update\<close> with the elapsed fraction, or, once
  the duration has passed, \<^verbatim>\<open>update(1)\<close> and then \<^verbatim>\<open>done()\<close>, and the interpolation
  is over. The cancel function stops the frames and calls \<^verbatim>\<open>done()\<close>. Here
  \<^verbatim>\<open>update\<close> is \<^verbatim>\<open>(val) => transition(val, this)\<close> and \<^verbatim>\<open>done\<close> is a completion
  closure. What the caller's \<^verbatim>\<open>transition\<close> and \<^verbatim>\<open>done\<close> do themselves is their
  caller's business: the trace records that they were called.
\<close>

definition call_update :: "callback \<Rightarrow> number \<Rightarrow> stmt" where
  "call_update tr v = atomic (\<lambda>(this, wd). Some (this, emit (CallTransition tr v this) wd))"

definition call_completion :: "Tween \<Rightarrow> stmt" where
  "call_completion t = block
     [on_world (emit (CompletionCalled (tween_ref t))),
      completion (tween_done t)]"

definition leave_flight :: "Tween \<Rightarrow> World \<Rightarrow> World" where
  "leave_flight t wd = wd\<lparr>tweens := filter (\<lambda>u. tween_ref u \<noteq> tween_ref t) (tweens wd)\<rparr>"

definition cancel :: "Tween \<Rightarrow> stmt" where
  "cancel t = block
     [on_world (\<lambda>wd. emit (TweenCancelled (tween_ref t)) (leave_flight t wd)),
      call_completion t]"

definition last_frame :: "Tween \<Rightarrow> stmt" where
  "last_frame t = block
     [on_world (leave_flight t),
      call_update (tween_update t) 1,
      call_completion t]"

text \<open>
  \<^verbatim>\<open>this._cancelTweening = Marzipano.util.tween(duration, update, done)\<close>: the engine
  starts the interpolation, calls \<^verbatim>\<open>update(0)\<close>, and the scene stores the cancel
  function it gets back.
\<close>

definition tween :: "number option \<Rightarrow> callback \<Rightarrow> Completion \<Rightarrow> stmt" where
  "tween duration update closure = atomic (\<lambda>(this, wd).
     let (h, w1) = alloc wd;
         t = \<lparr>tween_ref = h, tween_duration = duration, tween_update = update,
              tween_done = closure\<rparr>;
         w2 = emit (TweenStarted h) (w1\<lparr>tweens := tweens w1 @ [t]\<rparr>);
         w3 = emit (CallTransition update 0 this) w2
     in Some (this\<lparr>f_cancelTweening := Some t\<rparr>, w3))"

text \<open>
  The last part of \<^verbatim>\<open>onAttach\<close> and of \<^verbatim>\<open>onDetatch\<close>, lines 143 to 156 and 182 to
  199, the same but for the completion closure: cancel any ongoing transition, clear the
  handle, start a new tweening and store its cancel function.
\<close>

definition cancel_ongoing :: stmt where
  "cancel_ongoing st =
     (case f_cancelTweening (fst st) of
        None \<Rightarrow> (Returns, st)
      | Some t \<Rightarrow> block [cancel t, clear_cancelTweening] st)"

definition start_tweening :: "number option \<Rightarrow> callback \<Rightarrow> Completion \<Rightarrow> stmt" where
  "start_tweening duration tr closure = block
     [cancel_ongoing,
      tween duration tr closure]"

text \<open>
  \<^verbatim>\<open>onAttach\<close> and \<^verbatim>\<open>onDetatch\<close> as lists of statements, and as their caller sees
  them.
\<close>

definition onAttach_body :: "callback option \<Rightarrow> number option \<Rightarrow> callback option \<Rightarrow> stmt" where
  "onAttach_body transition duration dn = block
     [mount,
      on_world (\<lambda>wd. wd\<lparr>timers := timers wd @ [ResetViewParameters]\<rparr>),
      (case transition of
         None \<Rightarrow> block
           [on_scene (hotspotContainer show_container),
            on_world (call_done dn)]
       | Some tr \<Rightarrow> start_tweening duration tr (AttachDone dn))]"

definition onAttach ::
  "callback option \<Rightarrow> number option \<Rightarrow> callback option \<Rightarrow> Scene \<Rightarrow> World \<Rightarrow> (Scene \<times> World) option" where
  "onAttach transition duration dn this wd = returned (onAttach_body transition duration dn (this, wd))"

definition onDetatch_body :: "callback option \<Rightarrow> number option \<Rightarrow> callback option \<Rightarrow> stmt" where
  "onDetatch_body transition duration dn =
     (case transition of
        None \<Rightarrow> unmount dn
      | Some tr \<Rightarrow> start_tweening duration tr (DetachDone dn))"

definition onDetatch ::
  "callback option \<Rightarrow> number option \<Rightarrow> callback option \<Rightarrow> Scene \<Rightarrow> World \<Rightarrow> (Scene \<times> World) option" where
  "onDetatch transition duration dn this wd = returned (onDetatch_body transition duration dn (this, wd))"

definition onDestroy :: "Scene \<Rightarrow> World \<Rightarrow> (Scene \<times> World) option" where
  "onDestroy this wd = do {
     ts \<leftarrow> f_textureStores this;
     let w1 = pair (\<lambda>store. emit (DestroyStore (store_ref store))) ts wd;
     vs \<leftarrow> f_views this;
     let w2 = pair (\<lambda>view. emit (DestroyView (view_ref view))) vs w1;
     ls \<leftarrow> f_layers this;
     let w3 = pair (\<lambda>layer. emit (DestroyLayer (layer_ref layer))) ls w2;
     c \<leftarrow> f_hotspotContainer this;
     let w4 = emit (DestroyContainer (container_ref c)) w3;
     Some (this\<lparr>f_geometry := None,
                f_views := None,
                f_sources := None,
                f_textureStores := None,
                f_layers := None,
                f_hotspotContainer := None\<rparr>, w4)
   }"

section \<open>States of a scene\<close>

text \<open>
  The class keeps no state field. A scene is created (and not destroyed) when the seven
  engine objects of \<^verbatim>\<open>onCreate\<close> are in their fields and slots and the projection
  centre is set; \<open>resources\<close> reads them in the order views, layers, texture stores,
  hotspot container.
\<close>

definition resources ::
  "Scene \<Rightarrow> (View \<times> View \<times> Layer \<times> Layer \<times> TextureStore \<times> TextureStore \<times> HotspotContainer) option" where
  "resources this = do {
     vs \<leftarrow> f_views this;
     vp \<leftarrow> primary vs;
     vq \<leftarrow> secondary vs;
     ls \<leftarrow> f_layers this;
     lp \<leftarrow> primary ls;
     lq \<leftarrow> secondary ls;
     ts \<leftarrow> f_textureStores this;
     tp \<leftarrow> primary ts;
     tq \<leftarrow> secondary ts;
     c \<leftarrow> f_hotspotContainer this;
     Some (vp, vq, lp, lq, tp, tq, c)
   }"

definition is_created :: "Scene \<Rightarrow> bool" where
  "is_created this = (resources this \<noteq> None \<and> f_projectionCenter this \<noteq> None)"

section \<open>The event loop\<close>









section \<open>A worked scene\<close>

text \<open>
  The spec's example: the descriptor with id \<^verbatim>\<open>hall\<close>, face size 1024, one level,
  initial yaw and pitch 0 and no hotspots, deserialised, created in an empty world, and
  attached.
\<close>

definition world0 :: World where
  "world0 = \<lparr>next_ref = 0, stage_layers = {}, tweens = [], timers = [], trace = []\<rparr>"

definition hall_level_data :: LevelData where
  "hall_level_data = \<lparr>json_tileSize = 512, json_levelSize = 1024, json_fallbackOnly = False\<rparr>"

definition hall_level :: Level where
  "hall_level = \<lparr>tileSize = 512, levelSize = 1024, fallbackOnly = False\<rparr>"

definition hall_data :: ISceneData where
  "hall_data = \<lparr>json_id = ''hall'', json_name = ''Hall'', json_levels = [hall_level_data],
     json_faceSize = 1024, json_initialViewParameters = Vector4 0 0 45 60,
     json_linkHotspots = [], json_infoHotspots = []\<rparr>"

definition hall :: "Mode \<Rightarrow> Scene" where
  "hall m = \<lparr>f_id = ''hall'', f_name = ''Hall'', f_levels = [hall_level], f_faceSize = 1024,
     f_initialViewParameters = Vector4 0 0 0 90, f_linkHotspots = [], f_infoHotspots = [],
     f_player = \<lparr>mode = m\<rparr>, f_geometry = None, f_projectionCenter = None, f_views = None,
     f_hotspotContainer = None, f_sources = Some PairSet_empty,
     f_textureStores = Some PairSet_empty, f_layers = Some PairSet_empty,
     f_cancelTweening = None\<rparr>"

definition hall_view_left :: View where
  "hall_view_left = \<lparr>view_ref = 1, parameters = Vector4 0 0 0 90, limiter = PANORAMA_LIMITER,
     projectionCenterX = None\<rparr>"

definition hall_view_right :: View where
  "hall_view_right = \<lparr>view_ref = 2, parameters = Vector4 0 0 0 90, limiter = STEREOSCOPIC_LIMITER,
     projectionCenterX = None\<rparr>"

definition hall_source_left :: Source where
  "hall_source_left = \<lparr>source_ref = 3, tileUrl = ''assets/tiles/hall/left/{z}/{f}/{y}/{x}.jpg'',
     cubeMapPreviewUrl = ''assets/tiles/hall/left/preview.jpg''\<rparr>"

definition hall_source_right :: Source where
  "hall_source_right = \<lparr>source_ref = 6, tileUrl = ''assets/tiles/hall/right/{z}/{f}/{y}/{x}.jpg'',
     cubeMapPreviewUrl = ''assets/tiles/hall/right/preview.jpg''\<rparr>"

definition hall_store_left :: TextureStore where
  "hall_store_left = \<lparr>store_ref = 4, store_geometry = Some 0, store_source = 3\<rparr>"

definition hall_store_right :: TextureStore where
  "hall_store_right = \<lparr>store_ref = 7, store_geometry = Some 0, store_source = 6\<rparr>"

definition hall_layer_left :: Layer where
  "hall_layer_left = \<lparr>layer_ref = 5, layer_source = 3, layer_geometry = Some 0, layer_view = 1,
     layer_store = 4, rect = \<lparr>relativeWidth = Some (1 / 2), relativeX = Some 0\<rparr>, pinned = True\<rparr>"

definition hall_layer_right :: Layer where
  "hall_layer_right = \<lparr>layer_ref = 8, layer_source = 6, layer_geometry = Some 0, layer_view = 2,
     layer_store = 7, rect = \<lparr>relativeWidth = Some (1 / 2), relativeX = Some (1 / 2)\<rparr>, pinned = True\<rparr>"

definition hall_container :: HotspotContainer where
  "hall_container = \<lparr>container_ref = 9, container_view = 1,
     container_rect = \<lparr>relativeWidth = Some (1 / 2), relativeX = Some 0\<rparr>,
     hotspots = [], visible = None\<rparr>"

definition hall_created :: "Mode \<Rightarrow> Scene" where
  "hall_created m = (hall m)
     \<lparr>f_geometry := Some \<lparr>geometry_ref = 0, geometry_levels = [hall_level]\<rparr>,
      f_projectionCenter := Some (Vector4 0 0 0 0),
      f_views := Some (PairSet_of hall_view_left hall_view_right),
      f_hotspotContainer := Some hall_container,
      f_sources := Some (PairSet_of hall_source_left hall_source_right),
      f_textureStores := Some (PairSet_of hall_store_left hall_store_right),
      f_layers := Some (PairSet_of hall_layer_left hall_layer_right)\<rparr>"

definition world1 :: World where
  "world1 = world0\<lparr>next_ref := 10\<rparr>"

text \<open>
  The scene in panorama mode once \<^verbatim>\<open>onAttach\<close> has mounted it, and after
  \<^verbatim>\<open>onAttach()\<close> has returned.
\<close>

definition hall_mounted :: Scene where
  "hall_mounted = (hall_created PanoramaMode)
     \<lparr>f_views := Some (PairSet_of (hall_view_left\<lparr>projectionCenterX := Some 0\<rparr>)
                                   (hall_view_right\<lparr>projectionCenterX := Some 0\<rparr>)),
      f_hotspotContainer := Some (hall_container
         \<lparr>container_rect := \<lparr>relativeWidth = Some 1, relativeX = None\<rparr>\<rparr>),
      f_layers := Some (PairSet_of
         (hall_layer_left\<lparr>rect := \<lparr>relativeWidth = Some 1, relativeX = None\<rparr>\<rparr>) hall_layer_right)\<rparr>"

definition hall_attached :: Scene where
  "hall_attached = hall_mounted
     \<lparr>f_hotspotContainer := Some (hall_container
         \<lparr>container_rect := \<lparr>relativeWidth = Some 1, relativeX = None\<rparr>, visible := Some True\<rparr>)\<rparr>"

definition world2 :: World where
  "world2 = world1\<lparr>stage_layers := {5}, timers := [ResetViewParameters], trace := [AddLayer 5]\<rparr>"

text \<open>
  The scene after \<^verbatim>\<open>onAttach(transition, 500, done)\<close> while the interpolation is in
  flight, and after \<^verbatim>\<open>onDetatch(transition, 300)\<close> called then.
\<close>

definition hall_tween :: Tween where
  "hall_tween = \<lparr>tween_ref = 10, tween_duration = Some 500, tween_update = 1,
     tween_done = AttachDone (Some 7)\<rparr>"

definition hall_fading :: Scene where
  "hall_fading = hall_mounted\<lparr>f_cancelTweening := Some hall_tween\<rparr>"

definition world3 :: World where
  "world3 = world2
     \<lparr>next_ref := 11,
      tweens := [hall_tween],
      trace := [AddLayer 5, TweenStarted 10, CallTransition 1 0 hall_mounted]\<rparr>"

definition hall_detach_tween :: Tween where
  "hall_detach_tween = \<lparr>tween_ref = 11, tween_duration = Some 300, tween_update = 2,
     tween_done = DetachDone None\<rparr>"

definition hall_leaving :: Scene where
  "hall_leaving = hall_attached\<lparr>f_cancelTweening := Some hall_detach_tween\<rparr>"

definition world4 :: World where
  "world4 = world3
     \<lparr>next_ref := 12,
      tweens := [hall_detach_tween],
      trace := [AddLayer 5, TweenStarted 10, CallTransition 1 0 hall_mounted,
                TweenCancelled 10, CompletionCalled 10, CallDone 7,
                TweenStarted 11, CallTransition 2 0 hall_attached]\<rparr>"

text \<open>
  The scene created and never attached, after \<^verbatim>\<open>onDetatch(transition, 300)\<close>, and
  after \<^verbatim>\<open>onAttach(transition, 500, done)\<close> called then: cancelling the detach
  transition has run its closure, which has hidden the container and unmounted the
  primary layer that \<^verbatim>\<open>onAttach\<close> had just mounted.
\<close>

definition hall_early_tween :: Tween where
  "hall_early_tween = \<lparr>tween_ref = 10, tween_duration = Some 300, tween_update = 2,
     tween_done = DetachDone None\<rparr>"

definition hall_early :: Scene where
  "hall_early = (hall_created PanoramaMode)\<lparr>f_cancelTweening := Some hall_early_tween\<rparr>"

definition world5 :: World where
  "world5 = world1
     \<lparr>next_ref := 11,
      tweens := [hall_early_tween],
      trace := [TweenStarted 10, CallTransition 2 0 (hall_created PanoramaMode)]\<rparr>"

definition hall_hidden :: Scene where
  "hall_hidden = hall_mounted
     \<lparr>f_hotspotContainer := Some (hall_container
         \<lparr>container_rect := \<lparr>relativeWidth = Some 1, relativeX = None\<rparr>, visible := Some False\<rparr>)\<rparr>"

definition hall_late_tween :: Tween where
  "hall_late_tween = \<lparr>tween_ref = 11, tween_duration = Some 500, tween_update = 1,
     tween_done = AttachDone (Some 7)\<rparr>"

definition hall_returning :: Scene where
  "hall_returning = hall_hidden\<lparr>f_cancelTweening := Some hall_late_tween\<rparr>"

definition world6 :: World where
  "world6 = world5
     \<lparr>next_ref := 12,
      timers := [ResetViewParameters],
      tweens := [hall_late_tween],
      trace := [TweenStarted 10, CallTransition 2 0 (hall_created PanoramaMode),
                AddLayer 5, TweenCancelled 10, CompletionCalled 10, RemoveLayer 5,
                TweenStarted 11, CallTransition 1 0 hall_hidden]\<rparr>"

section \<open>Facts about the worked scene and the states\<close>

lemmas hall_defs = hall_def hall_created_def hall_view_left_def hall_view_right_def
  hall_source_left_def hall_source_right_def hall_store_left_def hall_store_right_def
  hall_layer_left_def hall_layer_right_def hall_container_def world0_def world1_def hall_data_def
  hall_level_def hall_level_data_def
  hall_mounted_def hall_attached_def world2_def hall_tween_def hall_fading_def world3_def
  hall_detach_tween_def hall_leaving_def world4_def
  hall_early_tween_def hall_early_def world5_def hall_hidden_def hall_late_tween_def
  hall_returning_def world6_def

lemmas stmt_defs = atomic_def on_scene_def on_world_def returned_def stage_addLayer_def
  stage_removeLayer_def clear_cancelTweening_def call_update_def

lemmas call_defs = primary_view_def secondary_view_def primary_layer_def hotspotContainer_def
  set_eye_def get_projectionCenter_def setLimiter_def setProjectionCenterX_def setEffects_def
  setRect_def show_container_def hide_container_def addLayer_def removeLayer_def hasLayer_def
  emit_def call_done_def alloc_def

lemmas method_defs = mount_def unmount_def call_completion_def leave_flight_def cancel_def
  tween_def cancel_ongoing_def start_tweening_def onAttach_body_def onAttach_def
  onDetatch_body_def onDetatch_def last_frame_def Let_def

lemma hall_levels_accepted: "levels_accepted [hall_level]"
  by (simp add: levels_accepted_def level_accepted_def hall_level_def)

lemma hall_fromJSON:
  "lf hall_level_data = hall_level \<Longrightarrow>
   fromJSON lf kf nf parse \<lparr>mode = m\<rparr> (Data hall_data) = Some (hall m)"
  by (simp add: fromJSON_def fromJSON_object_def hall_data_def hall_def Scene_constructor_def
      yaw_def pitch_def)

lemma hall_onCreate: "onCreate (JString ''media/'') (hall m) world0 = Some (True, hall_created m, world1)"
  by (simp add: onCreate_def CubeGeometry_def hall_levels_accepted createLayer_def new_view_def
      alloc_def basePath_def PairSet_of_def PairSet_empty_def Vector4_xy_def hall_def
      hall_created_def hall_view_left_def hall_view_right_def
      hall_source_left_def hall_source_right_def hall_store_left_def hall_store_right_def
      hall_layer_left_def hall_layer_right_def hall_container_def world0_def world1_def)

lemma limiters_differ: "PANORAMA_LIMITER \<noteq> STEREOSCOPIC_LIMITER"
  by (simp add: PANORAMA_LIMITER_def STEREOSCOPIC_LIMITER_def)

lemma resources_fields:
  assumes "resources this = Some (vp, vq, lp, lq, tp, tq, c)"
  shows "f_views this = Some \<lparr>primary = Some vp, secondary = Some vq\<rparr>"
    and "f_layers this = Some \<lparr>primary = Some lp, secondary = Some lq\<rparr>"
    and "f_textureStores this = Some \<lparr>primary = Some tp, secondary = Some tq\<rparr>"
    and "f_hotspotContainer this = Some c"
  using assms by (auto simp: resources_def split: Option.bind_splits)

lemma hall_resources:
  "resources (hall_created m) = Some
     (hall_view_left, hall_view_right, hall_layer_left, hall_layer_right,
      hall_store_left, hall_store_right, hall_container)"
  by (simp add: resources_def hall_def hall_created_def PairSet_of_def)

lemma hall_projectionCenter: "f_projectionCenter (hall_created m) = Some (Vector4 0 0 0 0)"
  by (simp add: hall_def hall_created_def)

lemma onCreate_creates:
  assumes "levels_accepted (f_levels this)"
    and "f_sources this \<noteq> None" and "f_textureStores this \<noteq> None" and "f_layers this \<noteq> None"
  shows "\<exists>s' w'. onCreate path0 this wd = Some (True, s', w') \<and> is_created s'"
proof -
  from assms obtain so ts ls where
    "f_sources this = Some so" "f_textureStores this = Some ts" "f_layers this = Some ls"
    by auto
  with assms(1) show ?thesis
    by (simp add: onCreate_def CubeGeometry_def createLayer_def new_view_def alloc_def
        PairSet_of_def Vector4_xy_def Let_def is_created_def resources_def)
qed

lemma hall_cancelTweening: "f_cancelTweening (hall_created m) = None"
  by (simp add: hall_def hall_created_def)

lemma world1_fields:
  "next_ref world1 = 10" "stage_layers world1 = {}" "tweens world1 = []" "timers world1 = []"
  "trace world1 = []"
  by (simp_all add: world1_def world0_def)

section \<open>Deserialisation and creation\<close>

text \<open>
  C10. For a descriptor object, and for a string that parses to it, \<open>fromJSON\<close> returns
  a scene whose initial view parameters are the descriptor's first two components (yaw and
  pitch) followed by 0 and 90, whatever the descriptor's third and fourth components are.
\<close>

theorem fromJSON_initialViewParameters:
  "fromJSON lf kf nf parse player (Data d) = Some (fromJSON_object lf kf nf player d) \<and>
   (parse t = Some d \<longrightarrow>
      fromJSON lf kf nf parse player (Text t) = Some (fromJSON_object lf kf nf player d)) \<and>
   f_initialViewParameters (fromJSON_object lf kf nf player d) =
     Vector4 (yaw (json_initialViewParameters d)) (pitch (json_initialViewParameters d)) 0 90"
  by (simp add: fromJSON_def fromJSON_object_def Scene_constructor_def)

theorem fromJSON_initialViewParameters_witness:
  "\<forall>lf kf nf.
     fromJSON lf kf nf (\<lambda>t. Some hall_data) \<lparr>mode = PanoramaMode\<rparr> (Text ''hall'') =
       Some (fromJSON_object lf kf nf \<lparr>mode = PanoramaMode\<rparr> hall_data) \<and>
     json_initialViewParameters hall_data = Vector4 0 0 45 60 \<and>
     f_initialViewParameters (fromJSON_object lf kf nf \<lparr>mode = PanoramaMode\<rparr> hall_data) =
       Vector4 0 0 0 90"
  using fromJSON_initialViewParameters [of _ _ _ "\<lambda>t. Some hall_data" _ hall_data "''hall''"]
  by (simp add: hall_data_def yaw_def pitch_def)




text \<open>
  C2. With a stage path configured (\<^verbatim>\<open>FS.path\<close> returning the non-empty
  \<^verbatim>\<open>'media/'\<close>) the base path is the default \<^verbatim>\<open>assets/tiles\<close> and the tile URL of
  the left eye starts with it; with none (the empty string, or \<^verbatim>\<open>undefined\<close>) the base
  path is \<^verbatim>\<open>tiles\<close>, or \<^verbatim>\<open>undefinedtiles\<close>, not the default.
\<close>

theorem createLayer_basePath_inverted:
  "basePath (JString ''media/'') = ''assets/tiles'' \<and>
   basePath (JString []) = ''tiles'' \<and>
   basePath JUndefined = ''undefinedtiles'' \<and>
   map_option tileUrl
     (Option.bind (Option.bind (createLayer (JString ''media/'') v Left r (hall m) wd) (f_sources \<circ> fst))
        primary) = Some ''assets/tiles/hall/left/{z}/{f}/{y}/{x}.jpg''"
  by (simp add: basePath_def createLayer_def alloc_def hall_def PairSet_empty_def)

section \<open>The projection centre\<close>

text \<open>
  C3. On a created scene, assigning \<open>projectionCenter\<close> a vector with horizontal
  component \<open>x\<close> sets the primary view's projection-centre offset to \<open>x\<close> and the
  secondary view's to \<open>- x\<close>, for every \<open>x\<close>.
\<close>

theorem set_projectionCenter_offsets:
  assumes "resources this = Some (vp, vq, lp, lq, tp, tq, c)"
  shows "\<exists>s'. set_projectionCenter center this = Some s' \<and>
           map_option projectionCenterX (Option.bind (f_views s') primary) = Some (Some (x center)) \<and>
           map_option projectionCenterX (Option.bind (f_views s') secondary) = Some (Some (- x center))"
  using resources_fields [OF assms]
  by (simp add: set_projectionCenter_def primary_view_def secondary_view_def setProjectionCenterX_def)

theorem set_projectionCenter_offsets_witness:
  "resources (hall_created PanoramaMode) = Some
     (hall_view_left, hall_view_right, hall_layer_left, hall_layer_right,
      hall_store_left, hall_store_right, hall_container) \<and>
   (\<exists>s'. set_projectionCenter (Vector4 (- 3 / 100) 0 0 0) (hall_created PanoramaMode) = Some s' \<and>
      map_option projectionCenterX (Option.bind (f_views s') primary) = Some (Some (- 3 / 100)) \<and>
      map_option projectionCenterX (Option.bind (f_views s') secondary) = Some (Some (3 / 100)))"
  using set_projectionCenter_offsets [OF hall_resources, of "Vector4 (- 3 / 100) 0 0 0" PanoramaMode]
  by (simp add: hall_resources)

text \<open>
  C9. The setter changes the two views and nothing else: the field \<^verbatim>\<open>_projectionCenter\<close>
  keeps its value, so the getter returns after the assignment what it returned before.
\<close>

theorem set_projectionCenter_keeps_field:
  assumes "resources this = Some (vp, vq, lp, lq, tp, tq, c)"
  shows "\<exists>s'. set_projectionCenter center this = Some s' \<and>
           get_projectionCenter s' = get_projectionCenter this \<and>
           s' = this\<lparr>f_views := Some \<lparr>primary = Some (setProjectionCenterX (x center) vp),
                                      secondary = Some (setProjectionCenterX (- x center) vq)\<rparr>\<rparr>"
  using resources_fields [OF assms]
  by (simp add: set_projectionCenter_def primary_view_def secondary_view_def get_projectionCenter_def)

theorem set_projectionCenter_keeps_field_witness:
  "resources (hall_created PanoramaMode) = Some
     (hall_view_left, hall_view_right, hall_layer_left, hall_layer_right,
      hall_store_left, hall_store_right, hall_container) \<and>
   get_projectionCenter (hall_created PanoramaMode) = Some (Vector4 0 0 0 0) \<and>
   (\<exists>s'. set_projectionCenter (Vector4 (1 / 20) 0 0 0) (hall_created PanoramaMode) = Some s' \<and>
      get_projectionCenter s' = Some (Vector4 0 0 0 0))"
  using set_projectionCenter_keeps_field [OF hall_resources, of "Vector4 (1 / 20) 0 0 0" PanoramaMode]
  by (simp add: hall_resources get_projectionCenter_def hall_projectionCenter)

section \<open>Destruction\<close>

text \<open>
  C8. \<open>onDestroy\<close> on a created scene destroys the two texture stores, then the two
  views, then the two layers, then the hotspot container, and returns the scene with the
  geometry, views, sources, texture stores, layers and hotspot container set to null.
\<close>

theorem onDestroy_order:
  assumes "resources this = Some (vp, vq, lp, lq, tp, tq, c)"
  shows "onDestroy this wd = Some
           (this\<lparr>f_geometry := None, f_views := None, f_sources := None,
                 f_textureStores := None, f_layers := None, f_hotspotContainer := None\<rparr>,
            wd\<lparr>trace := trace wd @
               [DestroyStore (store_ref tp), DestroyStore (store_ref tq),
                DestroyView (view_ref vp), DestroyView (view_ref vq),
                DestroyLayer (layer_ref lp), DestroyLayer (layer_ref lq),
                DestroyContainer (container_ref c)]\<rparr>)"
  using resources_fields [OF assms]
  by (simp add: onDestroy_def pair_def pair_slots_def emit_def)

theorem onDestroy_order_witness:
  "resources (hall_created PanoramaMode) = Some
     (hall_view_left, hall_view_right, hall_layer_left, hall_layer_right,
      hall_store_left, hall_store_right, hall_container) \<and>
   onDestroy (hall_created PanoramaMode) world1 = Some
     ((hall PanoramaMode)\<lparr>f_projectionCenter := Some (Vector4 0 0 0 0), f_sources := None,
         f_textureStores := None, f_layers := None\<rparr>,
      world1\<lparr>trace := [DestroyStore 4, DestroyStore 7, DestroyView 1, DestroyView 2,
         DestroyLayer 5, DestroyLayer 8, DestroyContainer 9]\<rparr>)"
  by (simp only: onDestroy_order [OF hall_resources] hall_resources)
     (simp add: hall_defs)

section \<open>Attaching\<close>


lemma hall_layer_refs: "layer_ref hall_layer_left = 5" "layer_ref hall_layer_right = 8"
  by (simp_all add: hall_layer_left_def hall_layer_right_def)

lemma hall_mount:
  "mount (hall_created PanoramaMode, world1) =
     (Returns, (hall_mounted, world1\<lparr>stage_layers := {5}, trace := [AddLayer 5]\<rparr>))"
  by (simp add: mount_def stmt_defs call_defs hall_defs PairSet_of_def)

lemma hall_onAttach:
  "onAttach None None None (hall_created PanoramaMode) world1 = Some (hall_attached, world2)"
  by (simp add: method_defs stmt_defs call_defs hall_defs PairSet_of_def)

lemma hall_onAttach_transition:
  "onAttach (Some 1) (Some 500) (Some 7) (hall_created PanoramaMode) world1 = Some (hall_fading, world3)"
  by (simp add: method_defs stmt_defs call_defs hall_defs PairSet_of_def)

lemma hall_attached_resources:
  "resources hall_attached = Some
     (hall_view_left\<lparr>projectionCenterX := Some 0\<rparr>, hall_view_right\<lparr>projectionCenterX := Some 0\<rparr>,
      hall_layer_left\<lparr>rect := \<lparr>relativeWidth = Some 1, relativeX = None\<rparr>\<rparr>, hall_layer_right,
      hall_store_left, hall_store_right,
      hall_container\<lparr>container_rect := \<lparr>relativeWidth = Some 1, relativeX = None\<rparr>,
        visible := Some True\<rparr>)"
  by (simp add: resources_def hall_attached_def hall_mounted_def hall_created_def hall_def
      PairSet_of_def)

text \<open>
  C5. On a created scene none of whose layers is mounted (the states Created and
  Detached), \<open>onAttach\<close> without a transition returns with the hotspot container shown
  and \<open>done\<close> called as the last call it makes; it starts no interpolation and leaves
  the stored cancellation handle as it was.
\<close>

theorem onAttach_without_transition:
  assumes "resources this = Some (vp, vq, lp, lq, tp, tq, c)" and "f_projectionCenter this = Some pc"
    and "layer_ref lp \<notin> stage_layers wd" and "layer_ref lq \<notin> stage_layers wd"
    and "layer_ref lp \<noteq> layer_ref lq"
  shows "\<exists>s' w' es. onAttach None duration (Some cb) this wd = Some (s', w') \<and>
           map_option visible (f_hotspotContainer s') = Some (Some True) \<and>
           trace w' = trace wd @ es @ [CallDone cb] \<and>
           (\<forall>h. TweenStarted h \<notin> set es) \<and>
           tweens w' = tweens wd \<and>
           f_cancelTweening s' = f_cancelTweening this"
proof (cases "mode (f_player this)")
  case PanoramaMode
  then show ?thesis
    using resources_fields [OF assms(1)] assms(2-)
    by (simp add: method_defs stmt_defs call_defs)
next
  case (StereoscopicMode e)
  then show ?thesis
    using resources_fields [OF assms(1)] assms(2-)
    by (cases e) (simp_all add: method_defs stmt_defs call_defs)
qed

theorem onAttach_without_transition_witness:
  "resources (hall_created PanoramaMode) = Some
     (hall_view_left, hall_view_right, hall_layer_left, hall_layer_right,
      hall_store_left, hall_store_right, hall_container) \<and>
   f_projectionCenter (hall_created PanoramaMode) = Some (Vector4 0 0 0 0) \<and>
   layer_ref hall_layer_left \<notin> stage_layers world1 \<and>
   layer_ref hall_layer_right \<notin> stage_layers world1 \<and>
   layer_ref hall_layer_left \<noteq> layer_ref hall_layer_right \<and>
   (\<exists>s' w' es. onAttach None None (Some 7) (hall_created PanoramaMode) world1 = Some (s', w') \<and>
      map_option visible (f_hotspotContainer s') = Some (Some True) \<and>
      trace w' = es @ [CallDone 7] \<and> (\<forall>h. TweenStarted h \<notin> set es) \<and>
      tweens w' = [] \<and> f_cancelTweening s' = None)"
proof -
  have h: "layer_ref hall_layer_left \<notin> stage_layers world1"
    "layer_ref hall_layer_right \<notin> stage_layers world1"
    "layer_ref hall_layer_left \<noteq> layer_ref hall_layer_right"
    by (simp_all add: hall_layer_refs world1_fields)
  from onAttach_without_transition [OF hall_resources hall_projectionCenter h, of None 7 PanoramaMode]
  show ?thesis
    using h by (simp add: hall_resources hall_projectionCenter world1_fields hall_cancelTweening)
qed



section \<open>Detaching\<close>

text \<open>
  C6, as the code has it. On a created scene whose primary layer is mounted, \<open>onDetatch\<close>
  without a transition hides the hotspot container, unmounts the primary layer, unmounts
  the secondary layer if and only if the stage has it mounted, calls \<open>done\<close>, and changes
  nothing else; when the primary layer is not mounted it raises once the container is
  hidden, before \<open>done\<close>. With a transition, and none in flight, it leaves the stage
  alone, starts the interpolation and stores its cancel function; the completion closure
  it hands over clears the handle and then does what the call without a transition does.
\<close>

theorem onDetatch_unmounts:
  assumes "resources this = Some (vp, vq, lp, lq, tp, tq, c)" and "layer_ref lp \<noteq> layer_ref lq"
    and "layer_ref lp \<in> stage_layers wd"
  shows "onDetatch None duration dn this wd = Some
           (this\<lparr>f_hotspotContainer := Some (hide_container c)\<rparr>,
            call_done dn (wd
              \<lparr>stage_layers := stage_layers wd - {layer_ref lp, layer_ref lq},
               trace := trace wd @ [RemoveLayer (layer_ref lp)] @
                 (if layer_ref lq \<in> stage_layers wd then [RemoveLayer (layer_ref lq)] else [])\<rparr>)) \<and>
         (layer_ref lp \<notin> stage_layers wn \<longrightarrow>
            onDetatch_body None duration dn (this, wn) =
              (Raises, (this\<lparr>f_hotspotContainer := Some (hide_container c)\<rparr>, wn))) \<and>
         returned (completion (DetachDone dn) (this, wd)) =
           onDetatch None duration dn (this\<lparr>f_cancelTweening := None\<rparr>) wd \<and>
         (f_cancelTweening this = None \<longrightarrow>
            onDetatch (Some tr) duration dn this wd = Some
              (this\<lparr>f_cancelTweening := Some
                  \<lparr>tween_ref = next_ref wd, tween_duration = duration, tween_update = tr,
                   tween_done = DetachDone dn\<rparr>\<rparr>,
               wd\<lparr>next_ref := Suc (next_ref wd),
                  tweens := tweens wd @
                    [\<lparr>tween_ref = next_ref wd, tween_duration = duration, tween_update = tr,
                      tween_done = DetachDone dn\<rparr>],
                  trace := trace wd @ [TweenStarted (next_ref wd), CallTransition tr 0 this]\<rparr>))"
proof (intro conjI impI)
  show "onDetatch None duration dn this wd = Some
           (this\<lparr>f_hotspotContainer := Some (hide_container c)\<rparr>,
            call_done dn (wd
              \<lparr>stage_layers := stage_layers wd - {layer_ref lp, layer_ref lq},
               trace := trace wd @ [RemoveLayer (layer_ref lp)] @
                 (if layer_ref lq \<in> stage_layers wd then [RemoveLayer (layer_ref lq)] else [])\<rparr>))"
  proof -
    have two: "stage_layers wd - {layer_ref lp} - {layer_ref lq} =
               stage_layers wd - {layer_ref lp, layer_ref lq}"
      by auto
    have one: "stage_layers wd - {layer_ref lp} = stage_layers wd - {layer_ref lp, layer_ref lq}"
      if "layer_ref lq \<notin> stage_layers wd"
      using that by auto
    show ?thesis
      using resources_fields [OF assms(1)] assms(2,3)
      by (simp add: onDetatch_def onDetatch_body_def unmount_def stmt_defs hotspotContainer_def
          removeLayer_def hasLayer_def emit_def two one)
  qed
  show "onDetatch_body None duration dn (this, wn) =
          (Raises, (this\<lparr>f_hotspotContainer := Some (hide_container c)\<rparr>, wn))"
    if "layer_ref lp \<notin> stage_layers wn"
    using resources_fields [OF assms(1)] that
    by (simp add: onDetatch_body_def unmount_def stmt_defs hotspotContainer_def removeLayer_def)
  show "returned (completion (DetachDone dn) (this, wd)) =
           onDetatch None duration dn (this\<lparr>f_cancelTweening := None\<rparr>) wd"
    by (simp add: onDetatch_def onDetatch_body_def stmt_defs split: prod.splits outcome.splits)
  show "onDetatch (Some tr) duration dn this wd = Some
              (this\<lparr>f_cancelTweening := Some
                  \<lparr>tween_ref = next_ref wd, tween_duration = duration, tween_update = tr,
                   tween_done = DetachDone dn\<rparr>\<rparr>,
               wd\<lparr>next_ref := Suc (next_ref wd),
                  tweens := tweens wd @
                    [\<lparr>tween_ref = next_ref wd, tween_duration = duration, tween_update = tr,
                      tween_done = DetachDone dn\<rparr>],
                  trace := trace wd @ [TweenStarted (next_ref wd), CallTransition tr 0 this]\<rparr>)"
    if "f_cancelTweening this = None"
    using that by (simp add: method_defs stmt_defs emit_def alloc_def)
qed

lemma hall_detached_resources:
  "resources (hall_attached\<lparr>f_hotspotContainer := Some (hall_container
         \<lparr>container_rect := \<lparr>relativeWidth = Some 1, relativeX = None\<rparr>, visible := Some False\<rparr>)\<rparr>) =
   Some
     (hall_view_left\<lparr>projectionCenterX := Some 0\<rparr>, hall_view_right\<lparr>projectionCenterX := Some 0\<rparr>,
      hall_layer_left\<lparr>rect := \<lparr>relativeWidth = Some 1, relativeX = None\<rparr>\<rparr>, hall_layer_right,
      hall_store_left, hall_store_right,
      hall_container\<lparr>container_rect := \<lparr>relativeWidth = Some 1, relativeX = None\<rparr>,
        visible := Some False\<rparr>)"
  by (simp add: resources_def hall_attached_def hall_mounted_def hall_created_def hall_def
      PairSet_of_def)

theorem onDetatch_unmounts_witness:
  "resources hall_attached = Some
     (hall_view_left\<lparr>projectionCenterX := Some 0\<rparr>, hall_view_right\<lparr>projectionCenterX := Some 0\<rparr>,
      hall_layer_left\<lparr>rect := \<lparr>relativeWidth = Some 1, relativeX = None\<rparr>\<rparr>, hall_layer_right,
      hall_store_left, hall_store_right,
      hall_container\<lparr>container_rect := \<lparr>relativeWidth = Some 1, relativeX = None\<rparr>,
        visible := Some True\<rparr>) \<and>
   layer_ref (hall_layer_left\<lparr>rect := \<lparr>relativeWidth = Some 1, relativeX = None\<rparr>\<rparr>) \<noteq>
     layer_ref hall_layer_right \<and>
   layer_ref (hall_layer_left\<lparr>rect := \<lparr>relativeWidth = Some 1, relativeX = None\<rparr>\<rparr>) \<in>
     stage_layers world2 \<and>
   stage_layers world2 = {5} \<and>
   onDetatch None None (Some 7) hall_attached world2 = Some
     (hall_attached\<lparr>f_hotspotContainer := Some (hall_container
         \<lparr>container_rect := \<lparr>relativeWidth = Some 1, relativeX = None\<rparr>, visible := Some False\<rparr>)\<rparr>,
      world2\<lparr>stage_layers := {}, trace := [AddLayer 5, RemoveLayer 5, CallDone 7]\<rparr>) \<and>
   layer_ref (hall_layer_left\<lparr>rect := \<lparr>relativeWidth = Some 1, relativeX = None\<rparr>\<rparr>) \<notin>
     stage_layers (world2\<lparr>stage_layers := {}, trace := [AddLayer 5, RemoveLayer 5, CallDone 7]\<rparr>) \<and>
   onDetatch_body None None (Some 7) (hall_attached,
       world2\<lparr>stage_layers := {}, trace := [AddLayer 5, RemoveLayer 5, CallDone 7]\<rparr>) =
     (Raises, (hall_attached\<lparr>f_hotspotContainer := Some (hall_container
         \<lparr>container_rect := \<lparr>relativeWidth = Some 1, relativeX = None\<rparr>, visible := Some False\<rparr>)\<rparr>,
       world2\<lparr>stage_layers := {}, trace := [AddLayer 5, RemoveLayer 5, CallDone 7]\<rparr>)) \<and>
   f_cancelTweening hall_attached = None \<and>
   onDetatch (Some 2) (Some 300) None hall_attached world2 = Some
     (hall_attached\<lparr>f_cancelTweening := Some \<lparr>tween_ref = 10, tween_duration = Some 300, tween_update = 2,
          tween_done = DetachDone None\<rparr>\<rparr>,
      world2\<lparr>next_ref := 11, tweens := [\<lparr>tween_ref = 10, tween_duration = Some 300, tween_update = 2,
          tween_done = DetachDone None\<rparr>],
         trace := [AddLayer 5, TweenStarted 10, CallTransition 2 0 hall_attached]\<rparr>)"
proof -
  have refs: "layer_ref (hall_layer_left\<lparr>rect := \<lparr>relativeWidth = Some 1, relativeX = None\<rparr>\<rparr>) \<noteq>
     layer_ref hall_layer_right"
    by (simp add: hall_layer_refs)
  have mounted: "layer_ref (hall_layer_left\<lparr>rect := \<lparr>relativeWidth = Some 1, relativeX = None\<rparr>\<rparr>) \<in>
     stage_layers world2"
    by (simp add: hall_layer_refs world2_def)
  have unmounted: "layer_ref (hall_layer_left\<lparr>rect := \<lparr>relativeWidth = Some 1, relativeX = None\<rparr>\<rparr>) \<notin>
     stage_layers (world2\<lparr>stage_layers := {}, trace := [AddLayer 5, RemoveLayer 5, CallDone 7]\<rparr>)"
    by simp
  have none: "f_cancelTweening hall_attached = None"
    by (simp add: hall_attached_def hall_mounted_def hall_cancelTweening)
  note t = onDetatch_unmounts [OF hall_attached_resources refs mounted]
  have a: "onDetatch None None (Some 7) hall_attached world2 = Some
     (hall_attached\<lparr>f_hotspotContainer := Some (hall_container
         \<lparr>container_rect := \<lparr>relativeWidth = Some 1, relativeX = None\<rparr>, visible := Some False\<rparr>)\<rparr>,
      world2\<lparr>stage_layers := {}, trace := [AddLayer 5, RemoveLayer 5, CallDone 7]\<rparr>)"
    by (simp only: t [THEN conjunct1])
       (simp add: hall_layer_refs world2_def world1_def world0_def hide_container_def
          call_done_def emit_def)
  have b: "onDetatch_body None None (Some 7) (hall_attached,
       world2\<lparr>stage_layers := {}, trace := [AddLayer 5, RemoveLayer 5, CallDone 7]\<rparr>) =
     (Raises, (hall_attached\<lparr>f_hotspotContainer := Some (hall_container
         \<lparr>container_rect := \<lparr>relativeWidth = Some 1, relativeX = None\<rparr>, visible := Some False\<rparr>)\<rparr>,
       world2\<lparr>stage_layers := {}, trace := [AddLayer 5, RemoveLayer 5, CallDone 7]\<rparr>))"
    using t [THEN conjunct2, THEN conjunct1, rule_format, OF unmounted, of None "Some 7"]
    by (simp add: hide_container_def)
  have c: "onDetatch (Some 2) (Some 300) None hall_attached world2 = Some
     (hall_attached\<lparr>f_cancelTweening := Some \<lparr>tween_ref = 10, tween_duration = Some 300, tween_update = 2,
          tween_done = DetachDone None\<rparr>\<rparr>,
      world2\<lparr>next_ref := 11, tweens := [\<lparr>tween_ref = 10, tween_duration = Some 300, tween_update = 2,
          tween_done = DetachDone None\<rparr>],
         trace := [AddLayer 5, TweenStarted 10, CallTransition 2 0 hall_attached]\<rparr>)"
    by (simp only: t [THEN conjunct2, THEN conjunct2, THEN conjunct2, rule_format, OF none])
       (simp add: world2_def world1_def world0_def)
  from refs mounted unmounted none a b c show ?thesis
    by (simp add: hall_attached_resources world2_def)
qed

text \<open>
  C6, as the claim has it, fails on the worked scene: detaching the attached scene leaves
  its hotspot container hidden where it was shown before, so a scene resource other than
  the mounted layers has changed; and detaching it with a transition returns with the
  primary layer still mounted.
\<close>

theorem onDetatch_hides_container:
  "onAttach None None None (hall_created PanoramaMode) world1 = Some (hall_attached, world2) \<and>
   Option.bind (f_hotspotContainer hall_attached) visible = Some True \<and>
   Option.bind (Option.bind (onDetatch None None None hall_attached world2) (f_hotspotContainer \<circ> fst))
     visible = Some False \<and>
   layer_ref hall_layer_left = 5 \<and>
   map_option (stage_layers \<circ> snd) (onDetatch (Some 2) (Some 300) None hall_attached world2) = Some {5}"
  by (simp add: method_defs stmt_defs call_defs hall_defs PairSet_of_def)

section \<open>Transitions\<close>

subsection \<open>Calm statements\<close>


































subsection \<open>The completion closures, cancelling and starting\<close>












subsection \<open>The invariants of the event loop\<close>


























lemma hall_onDetatch_early:
  "onDetatch (Some 2) (Some 300) None (hall_created PanoramaMode) world1 = Some (hall_early, world5)"
  by (simp add: method_defs stmt_defs call_defs hall_defs PairSet_of_def)





end
